theory Spec2Isabelle
  imports Main "HOL-Library.Word"
begin

section \<open>JavaScript values\<close>

text \<open>
  The deferred account flow of \<^verbatim>\<open>extensions/amp-subscriptions/0.1/deferred-account-flow.js\<close>.
  Names follow the source; the trailing underscore of private members is dropped.

  The values that reach the flow from the store, from the JSON response and from the
  consent prompt. Numbers are the integers.
\<close>

datatype jsval =
    Undefined
  | Null
  | Bool bool
  | Number int
  | String string
  | Object "(string \<times> jsval) list"

text \<open>What \<^verbatim>\<open>if (v)\<close> tests.\<close>

fun truthy :: "jsval \<Rightarrow> bool" where
  "truthy Undefined = False"
| "truthy Null = False"
| "truthy (Bool b) = b"
| "truthy (Number n) = (n \<noteq> 0)"
| "truthy (String s) = (s \<noteq> [])"
| "truthy (Object ps) = True"

datatype error = TypeError | RangeError | InvalidCharacterError | Reason string

text \<open>
  Property access \<^verbatim>\<open>v.name\<close>: a TypeError on \<^verbatim>\<open>undefined\<close> and \<^verbatim>\<open>null\<close>,
  \<^verbatim>\<open>undefined\<close> for a property that is not there.
\<close>

fun get_prop :: "jsval \<Rightarrow> string \<Rightarrow> error + jsval" where
  "get_prop Undefined name = Inl TypeError"
| "get_prop Null name = Inl TypeError"
| "get_prop (Object ps) name = Inr (case map_of ps name of None \<Rightarrow> Undefined | Some v \<Rightarrow> v)"
| "get_prop v name = Inr Undefined"

section \<open>The built-ins behind the storage key\<close>

text \<open>
  \<^verbatim>\<open>btoa\<close> on a binary string, a \<^typ>\<open>string\<close> of code units up to 255: its base64.
\<close>

definition b64_alphabet :: string where
  "b64_alphabet = ''ABCDEFGHIJKLMNOPQRSTUVWXYZabcdefghijklmnopqrstuvwxyz0123456789+/''"

definition b64 :: "nat \<Rightarrow> char" where
  "b64 n = b64_alphabet ! (n mod 64)"

fun btoa :: "string \<Rightarrow> string" where
  "btoa (a # b # c # rest) =
     (let n = of_char a * 65536 + of_char b * 256 + of_char c
      in b64 (n div 262144) # b64 (n div 4096) # b64 (n div 64) # b64 n # btoa rest)"
| "btoa [a, b] =
     (let n = of_char a * 1024 + of_char b * 4
      in [b64 (n div 4096), b64 (n div 64), b64 n, CHR ''=''])"
| "btoa [a] =
     (let n = of_char a * 16
      in [b64 (n div 64), b64 n, CHR ''='', CHR ''=''])"
| "btoa [] = []"

text \<open>
  A JavaScript string is a list of 16-bit code units. \<^verbatim>\<open>btoa\<close> throws
  InvalidCharacterError on a string with a code unit above 255, and gives the base64 of
  the binary string otherwise.
\<close>

definition js_string :: "string \<Rightarrow> 16 word list" where
  "js_string s = map (\<lambda>c. of_nat (of_char c)) s"

definition btoa_text :: "16 word list \<Rightarrow> error + string" where
  "btoa_text s =
     (if list_all (\<lambda>u. unat u \<le> 255) s
      then Inr (btoa (map (\<lambda>u. char_of (unat u)) s))
      else Inl InvalidCharacterError)"

text \<open>
  \<^verbatim>\<open>new ArrayBuffer(x)\<close> takes a length, not contents: a string argument goes through
  ToNumber and ToIndex, and the buffer holds that many zero bytes. Of the numeric literals
  only the unsigned decimal integers are read here; every other text that is not empty is
  taken as NaN, which is what ToNumber gives for text that starts with a letter other than
  the \<^verbatim>\<open>I\<close> of \<^verbatim>\<open>Infinity\<close>. NaN is the length 0; a length above
  \<open>2 ^ 53 - 1\<close> is a RangeError.
\<close>

datatype jsnumber = NaN | Finite nat

definition is_digit :: "char \<Rightarrow> bool" where
  "is_digit c = (48 \<le> (of_char c :: nat) \<and> (of_char c :: nat) \<le> 57)"

definition decimal :: "string \<Rightarrow> nat" where
  "decimal s = foldl (\<lambda>n c. 10 * n + (of_char c - 48)) 0 s"

definition StringToNumber :: "string \<Rightarrow> jsnumber" where
  "StringToNumber s =
     (if s = [] then Finite 0
      else if list_all is_digit s then Finite (decimal s)
      else NaN)"

definition new_ArrayBuffer :: "string \<Rightarrow> error + 8 word list" where
  "new_ArrayBuffer s =
     (case StringToNumber s of
        NaN \<Rightarrow> Inr []
      | Finite n \<Rightarrow> if n > 2 ^ 53 - 1 then Inl RangeError else Inr (replicate n 0))"

text \<open>
  \<^verbatim>\<open>btoa(hash)\<close> is given an ArrayBuffer where it takes a string: the argument goes
  through ToString, and an ArrayBuffer of any contents prints as the same text.
\<close>

definition ToString_ArrayBuffer :: "8 word list \<Rightarrow> string" where
  "ToString_ArrayBuffer buf = ''[object ArrayBuffer]''"

section \<open>Entitlements\<close>

text \<open>
  The class Entitlement is not part of the file. Its \<^verbatim>\<open>json()\<close> returns an object, so
  \<^verbatim>\<open>JSON.stringify(entitlements.json())\<close> is an opening brace followed by the members and
  the closing brace, in any code units: JSON.stringify leaves text outside ASCII as it is.
  \<open>pingback\<close> is \<^verbatim>\<open>stringifyForPingback(entitlements)\<close>.
\<close>

record entitlement =
  json_members :: "16 word list"
  pingback :: string

definition JSON_stringify_json :: "entitlement \<Rightarrow> 16 word list" where
  "JSON_stringify_json e = js_string ''{'' @ json_members e"

text \<open>
  The first statement of \<open>getStorageKey\<close>,
  \<^verbatim>\<open>new ArrayBuffer(btoa(JSON.stringify(entitlements.json())))\<close>: it runs when the
  function is called, and either built-in may throw.
\<close>

definition arrayBuffer :: "entitlement \<Rightarrow> error + 8 word list" where
  "arrayBuffer entitlements =
     (case btoa_text (JSON_stringify_json entitlements) of
        Inl err \<Rightarrow> Inl err
      | Inr text \<Rightarrow> new_ArrayBuffer text)"

section \<open>Promises, the world and the collaborators\<close>

datatype 'a outcome = Resolved 'a | Rejected error

record fetch_init =
  http_method :: string
  credentials :: string
  body_entitlements :: string

datatype event =
    StorageGet string
  | StorageSet string jsval
  | BuildUrl "string option" bool
  | FetchJson string fetch_init
  | ResponseJson
  | ConsentPrompt
  | NavigateTo "string option"

text \<open>
  A promise chain that is started and not returned to anyone: the write of the existence
  result, and the reaction to the consent decision. The promise of the consent prompt is
  pending when the prompt has been opened; it settles on the decision of the person.
\<close>

datatype task =
    SetStorageData string entitlement jsval
  | ConsentReaction entitlement

text \<open>
  The world: the contents of the durable store, the calls made to the collaborators so
  far, and the chains that nobody waits for. Such a chain runs after the chain that started
  it has settled: the digest, the store and the person at the consent prompt answer in a
  later turn of the event loop.
\<close>

record world =
  store :: "string \<rightharpoonup> jsval"
  trace :: "event list"
  pending :: "task list"

type_synonym 'a promise = "world \<Rightarrow> 'a outcome \<times> world"

definition resolve :: "'a \<Rightarrow> 'a promise" where
  "resolve v = (\<lambda>w. (Resolved v, w))"

definition reject :: "error \<Rightarrow> 'a promise" where
  "reject err = (\<lambda>w. (Rejected err, w))"

definition settled :: "'a outcome \<Rightarrow> 'a promise" where
  "settled r = (\<lambda>w. (r, w))"

text \<open>
  An exception. Thrown inside a callback of \<^verbatim>\<open>then\<close> it rejects the promise of that
  \<^verbatim>\<open>then\<close>; thrown while a function builds its chain it leaves the function as an
  exception, past every \<^verbatim>\<open>catch\<close> of that chain. No \<^verbatim>\<open>catch\<close> of the flow
  is around such a call, so the two are one outcome here: the call failed with the error.
\<close>

definition throw :: "error \<Rightarrow> 'a promise" where
  "throw err = (\<lambda>w. (Rejected err, w))"

text \<open>\<^verbatim>\<open>p.then(f)\<close> and \<^verbatim>\<open>p.catch(h)\<close>.\<close>

definition then_p :: "'a promise \<Rightarrow> ('a \<Rightarrow> 'b promise) \<Rightarrow> 'b promise" where
  "then_p p f = (\<lambda>w. case p w of
       (Resolved v, w') \<Rightarrow> f v w'
     | (Rejected err, w') \<Rightarrow> (Rejected err, w'))"

definition catch_p :: "'a promise \<Rightarrow> (error \<Rightarrow> 'a promise) \<Rightarrow> 'a promise" where
  "catch_p p h = (\<lambda>w. case p w of
       (Resolved v, w') \<Rightarrow> (Resolved v, w')
     | (Rejected err, w') \<Rightarrow> h err w')"

definition call :: "event \<Rightarrow> 'a outcome \<Rightarrow> 'a promise" where
  "call ev r = (\<lambda>w. (r, w\<lparr>trace := trace w @ [ev]\<rparr>))"

definition detached :: "task \<Rightarrow> jsval promise" where
  "detached t = (\<lambda>w. (Resolved Undefined, w\<lparr>pending := pending w @ [t]\<rparr>))"

text \<open>
  The durable store, when there is one: \<open>get\<close> and \<open>set\<close> either work on the contents
  or reject.
\<close>

record storage =
  get_error :: "error option"
  set_error :: "error option"

definition storage_get :: "storage \<Rightarrow> string \<Rightarrow> jsval promise" where
  "storage_get s key = (\<lambda>w.
     call (StorageGet key)
       (case get_error s of
          Some err \<Rightarrow> Rejected err
        | None \<Rightarrow> Resolved (case store w key of None \<Rightarrow> Undefined | Some v \<Rightarrow> v)) w)"

definition storage_set :: "storage \<Rightarrow> string \<Rightarrow> jsval \<Rightarrow> jsval promise" where
  "storage_set s key v = (\<lambda>w.
     case set_error s of
       Some err \<Rightarrow> call (StorageSet key v) (Rejected err) w
     | None \<Rightarrow> call (StorageSet key v) (Resolved Undefined) (w\<lparr>store := (store w)(key \<mapsto> v)\<rparr>))"

record response =
  json :: "jsval outcome"

record platform =
  getServiceId :: string
  consentDeferredAccountCreation :: "jsval outcome"

text \<open>
  What the constructor looks up through \<^verbatim>\<open>Services\<close>, and the digest of
  \<^verbatim>\<open>crypto.subtle\<close>, whose promise resolves with the hash or rejects. The store
  service is itself a promise: it rejects where the viewer has no storage.
\<close>

record services =
  storageForDoc :: "storage outcome"
  fetchJson :: "string \<Rightarrow> fetch_init \<Rightarrow> response outcome"
  buildUrl :: "string option \<Rightarrow> bool \<Rightarrow> string outcome"
  digest :: "8 word list \<Rightarrow> 8 word list outcome"

section \<open>DeferredAccountFlow\<close>

definition HAS_PUBLISHER_ACCOUNT :: string where
  "HAS_PUBLISHER_ACCOUNT = ''account-exists-on-publisher-side''"

definition HAS_REJECTED_ACCOUNT_CREATION :: string where
  "HAS_REJECTED_ACCOUNT_CREATION = ''user-rejected-account-creation-request''"

record DeferredAccountFlow =
  env :: services
  hasAssociatedAccountUrl :: "string option"
  accountCreationRedirectUrl :: "string option"
  platform :: platform

text \<open>\<^verbatim>\<open>url || null\<close>: an absent or empty URL is stored as null.\<close>

definition or_null :: "string option \<Rightarrow> string option" where
  "or_null u = (case u of None \<Rightarrow> None | Some s \<Rightarrow> if s = [] then None else Some s)"

definition constructor ::
  "services \<Rightarrow> string option \<Rightarrow> string option \<Rightarrow> platform \<Rightarrow> DeferredAccountFlow" where
  "constructor ampdoc hasUrl redirectUrl p =
     \<lparr>env = ampdoc,
      hasAssociatedAccountUrl = or_null hasUrl,
      accountCreationRedirectUrl = or_null redirectUrl,
      platform = p\<rparr>"

text \<open>\<^verbatim>\<open>a && b\<close> is \<open>a\<close> when \<open>a\<close> is falsy and \<open>b\<close> otherwise; null is falsy.\<close>

definition isDeferredAccountCreationEnabled :: "DeferredAccountFlow \<Rightarrow> string option" where
  "isDeferredAccountCreationEnabled this =
     (case hasAssociatedAccountUrl this of
        None \<Rightarrow> None
      | Some a \<Rightarrow> if a = [] then Some a else accountCreationRedirectUrl this)"

definition truthy_url :: "string option \<Rightarrow> bool" where
  "truthy_url u = (case u of None \<Rightarrow> False | Some s \<Rightarrow> s \<noteq> [])"

definition getStorageKey :: "DeferredAccountFlow \<Rightarrow> string \<Rightarrow> entitlement \<Rightarrow> string promise" where
  "getStorageKey this storageKey entitlements =
     (case arrayBuffer entitlements of
        Inl err \<Rightarrow> throw err
      | Inr buffer \<Rightarrow>
          then_p (settled (digest (env this) buffer)) (\<lambda>hash.
            resolve (storageKey @ ''_'' @ btoa (ToString_ArrayBuffer hash))))"

definition getStorageData :: "DeferredAccountFlow \<Rightarrow> string \<Rightarrow> entitlement \<Rightarrow> jsval promise" where
  "getStorageData this storageKey entitlements =
     then_p (getStorageKey this storageKey entitlements) (\<lambda>key.
       catch_p
         (then_p (settled (storageForDoc (env this))) (\<lambda>s. storage_get s key))
         (\<lambda>err. resolve Undefined))"

definition setStorageData ::
  "DeferredAccountFlow \<Rightarrow> string \<Rightarrow> entitlement \<Rightarrow> jsval \<Rightarrow> jsval promise" where
  "setStorageData this storageKey entitlements v =
     then_p (getStorageKey this storageKey entitlements) (\<lambda>key.
       then_p (settled (storageForDoc (env this))) (\<lambda>s.
         catch_p (storage_set s key v) (\<lambda>err. resolve Undefined)))"

text \<open>
  A call of \<open>setStorageData\<close> whose promise is dropped: the first statement of
  \<open>getStorageKey\<close> runs in the caller, and an exception of it is the caller's; the
  rest of the chain is left to the event loop.
\<close>

definition start_setStorageData :: "string \<Rightarrow> entitlement \<Rightarrow> jsval \<Rightarrow> jsval promise" where
  "start_setStorageData storageKey entitlements v =
     (case arrayBuffer entitlements of
        Inl err \<Rightarrow> throw err
      | Inr buffer \<Rightarrow> detached (SetStorageData storageKey entitlements v))"

definition hasAssociatedUserAccount :: "DeferredAccountFlow \<Rightarrow> entitlement \<Rightarrow> jsval promise" where
  "hasAssociatedUserAccount this entitlements =
     then_p (getStorageData this HAS_PUBLISHER_ACCOUNT entitlements)
       (\<lambda>publisherAccountLocalValue.
         if publisherAccountLocalValue \<noteq> Undefined
         then resolve (Object [(''found'', publisherAccountLocalValue)])
         else
           then_p
             (then_p
               (then_p
                 (\<lambda>w. call (BuildUrl (hasAssociatedAccountUrl this) True)
                        (buildUrl (env this) (hasAssociatedAccountUrl this) True) w)
                 (\<lambda>url.
                    let init = \<lparr>http_method = ''POST'', credentials = ''include'',
                                body_entitlements = pingback entitlements\<rparr>
                    in call (FetchJson url init) (fetchJson (env this) url init)))
               (\<lambda>result. call ResponseJson (json result)))
             (\<lambda>jsonResult.
                case get_prop jsonResult ''found'' of
                  Inl err \<Rightarrow> reject err
                | Inr found \<Rightarrow>
                    then_p (start_setStorageData HAS_PUBLISHER_ACCOUNT entitlements found)
                      (\<lambda>u. resolve jsonResult)))"

text \<open>
  \<open>run\<close> up to the point where its promise settles. The consent prompt is opened and
  the chain on its decision is not returned, so the callback returns \<^verbatim>\<open>undefined\<close>
  at once.
\<close>

definition run :: "DeferredAccountFlow \<Rightarrow> entitlement \<Rightarrow> jsval promise" where
  "run this entitlements =
     then_p (getStorageData this HAS_REJECTED_ACCOUNT_CREATION entitlements) (\<lambda>rejected.
       if truthy rejected then resolve Undefined
       else
         then_p (hasAssociatedUserAccount this entitlements) (\<lambda>jsonResult.
           case get_prop jsonResult ''found'' of
             Inl err \<Rightarrow> reject err
           | Inr found \<Rightarrow>
               if truthy found then resolve Undefined
               else
                 then_p (call ConsentPrompt (Resolved Undefined)) (\<lambda>u.
                   then_p (detached (ConsentReaction entitlements)) (\<lambda>u.
                     resolve Undefined))))"

text \<open>The callback on the consent decision, once the platform's promise has settled.\<close>

definition consent_reaction :: "DeferredAccountFlow \<Rightarrow> entitlement \<Rightarrow> jsval promise" where
  "consent_reaction this entitlements =
     then_p (settled (consentDeferredAccountCreation (platform this))) (\<lambda>accepted.
       if truthy accepted
       then call (NavigateTo (accountCreationRedirectUrl this)) (Resolved Undefined)
       else setStorageData this HAS_REJECTED_ACCOUNT_CREATION entitlements (Bool True))"

fun run_task :: "DeferredAccountFlow \<Rightarrow> task \<Rightarrow> jsval promise" where
  "run_task this (SetStorageData storageKey entitlements v) =
     setStorageData this storageKey entitlements v"
| "run_task this (ConsentReaction entitlements) = consent_reaction this entitlements"

text \<open>
  The event loop after the promise of \<open>run\<close> has settled: the chains nobody waits for run
  in the order they were started, and their outcomes are dropped.
\<close>

definition event_loop :: "DeferredAccountFlow \<Rightarrow> world \<Rightarrow> world" where
  "event_loop this w =
     foldl (\<lambda>w' t. snd (run_task this t w')) (w\<lparr>pending := []\<rparr>) (pending w)"

definition run_flow :: "DeferredAccountFlow \<Rightarrow> entitlement \<Rightarrow> world \<Rightarrow> jsval outcome \<times> world" where
  "run_flow this entitlements w =
     (case run this entitlements w of (r, w') \<Rightarrow> (r, event_loop this w'))"

section \<open>Reading a run\<close>

text \<open>
  The three network steps of \<open>hasAssociatedUserAccount\<close>, as one chain: build the URL,
  post the entitlement, parse the response.
\<close>

definition network_check :: "DeferredAccountFlow \<Rightarrow> entitlement \<Rightarrow> jsval promise" where
  "network_check this entitlements =
     then_p
       (then_p
         (\<lambda>w. call (BuildUrl (hasAssociatedAccountUrl this) True)
                (buildUrl (env this) (hasAssociatedAccountUrl this) True) w)
         (\<lambda>url.
            let init = \<lparr>http_method = ''POST'', credentials = ''include'',
                        body_entitlements = pingback entitlements\<rparr>
            in call (FetchJson url init) (fetchJson (env this) url init)))
       (\<lambda>result. call ResponseJson (json result))"

text \<open>The error with which the key derivation fails, if it does.\<close>

definition key_failure :: "DeferredAccountFlow \<Rightarrow> entitlement \<Rightarrow> error option" where
  "key_failure this entitlements =
     (case arrayBuffer entitlements of
        Inl err \<Rightarrow> Some err
      | Inr buffer \<Rightarrow>
          (case digest (env this) buffer of
             Rejected err \<Rightarrow> Some err
           | Resolved hash \<Rightarrow> None))"

fun is_network :: "event \<Rightarrow> bool" where
  "is_network (BuildUrl u a) = True"
| "is_network (FetchJson u i) = True"
| "is_network ResponseJson = True"
| "is_network ev = False"

fun is_read :: "event \<Rightarrow> bool" where
  "is_read (StorageGet k) = True"
| "is_read ev = False"

fun is_navigation :: "event \<Rightarrow> bool" where
  "is_navigation (NavigateTo u) = True"
| "is_navigation ev = False"

text \<open>The calls made between two worlds of one run.\<close>

definition new_events :: "world \<Rightarrow> world \<Rightarrow> event list" where
  "new_events w w' = drop (length (trace w)) (trace w')"

section \<open>Sample collaborators\<close>

text \<open>
  Concrete collaborators on which the theorems below are evaluated. The digest is a
  stand-in with the output length of SHA-256.
\<close>

definition stand_in_digest :: "8 word list \<Rightarrow> 8 word list outcome" where
  "stand_in_digest buf = Resolved (replicate 32 (of_nat (length buf)))"

definition other_digest :: "8 word list \<Rightarrow> 8 word list outcome" where
  "other_digest buf = Resolved (replicate 32 (of_nat (length buf) + 1))"

definition failing_digest :: "8 word list \<Rightarrow> 8 word list outcome" where
  "failing_digest buf = Rejected (Reason ''digest'')"

definition working_storage :: storage where
  "working_storage = \<lparr>get_error = None, set_error = None\<rparr>"

definition not_found_response :: response where
  "not_found_response = \<lparr>json = Resolved (Object [(''found'', Bool False)])\<rparr>"

definition sample_services :: services where
  "sample_services =
     \<lparr>storageForDoc = Resolved working_storage,
      fetchJson = (\<lambda>url init. Resolved not_found_response),
      buildUrl = (\<lambda>u auth. case u of None \<Rightarrow> Rejected (Reason ''no url'') | Some s \<Rightarrow> Resolved s),
      digest = stand_in_digest\<rparr>"

definition accepting :: platform where
  "accepting = \<lparr>getServiceId = ''local'', consentDeferredAccountCreation = Resolved (Bool True)\<rparr>"

definition declining :: platform where
  "declining = \<lparr>getServiceId = ''local'', consentDeferredAccountCreation = Resolved (Bool False)\<rparr>"

definition has_url :: string where
  "has_url = ''https://pub.example/has-account''"

definition create_url :: string where
  "create_url = ''https://pub.example/create''"

definition sample_flow :: "services \<Rightarrow> platform \<Rightarrow> DeferredAccountFlow" where
  "sample_flow sv p = constructor sv (Some has_url) (Some create_url) p"

definition sample_entitlement :: entitlement where
  "sample_entitlement =
     \<lparr>json_members = js_string ''\"source\":\"local\",\"granted\":true}'', pingback = ''a''\<rparr>"

definition other_entitlement :: entitlement where
  "other_entitlement =
     \<lparr>json_members = js_string ''\"source\":\"local\",\"granted\":false}'', pingback = ''b''\<rparr>"

text \<open>An entitlement whose data holds the euro sign, code unit 8364.\<close>

definition euro_entitlement :: entitlement where
  "euro_entitlement =
     \<lparr>json_members = js_string ''\"data\":\"'' @ [8364] @ js_string ''\"}'', pingback = ''c''\<rparr>"

definition empty_world :: world where
  "empty_world = \<lparr>store = Map.empty, trace = [], pending = []\<rparr>"

section \<open>The storage key\<close>

lemma b64_30: "b64 30 = CHR ''e''"
  by (simp add: b64_def b64_alphabet_def)

text \<open>The base64 text of anything that opens with a brace starts with the letter e.\<close>

lemma btoa_brace: "\<exists>t. btoa (CHR ''{'' # s) = CHR ''e'' # t"
proof (cases s)
  case Nil
  have "(123 * 16 div 64 :: nat) = 30" by simp
  then show ?thesis using Nil by (simp add: b64_30)
next
  case (Cons b s')
  note s = Cons
  have bb: "(of_char b :: nat) < 256" by (rule nat_of_char_less_256)
  show ?thesis
  proof (cases s')
    case Nil
    have "((123 * 1024 + of_char b * 4) div 4096 :: nat) = 30" using bb by arith
    then show ?thesis using s Nil by (simp add: b64_30 Let_def)
  next
    case (Cons c s'')
    have cc: "(of_char c :: nat) < 256" by (rule nat_of_char_less_256)
    have "((123 * 65536 + of_char b * 256 + of_char c) div 262144 :: nat) = 30"
      using bb cc by arith
    then show ?thesis using s Cons by (simp add: b64_30 Let_def)
  qed
qed

lemma not_digit_e: "\<not> is_digit (CHR ''e'')"
  by (simp add: is_digit_def)

text \<open>Plain text as a JavaScript string is in the domain of \<^verbatim>\<open>btoa\<close>.\<close>

lemma js_string_append: "js_string (s @ t) = js_string s @ js_string t"
  by (simp add: js_string_def)

lemma unat_js_unit: "unat (of_nat (of_char c) :: 16 word) = of_char c"
proof -
  have "(of_char c :: nat) < 65536"
    using nat_of_char_less_256 [of c] by arith
  then show ?thesis by (simp add: unat_of_nat)
qed

lemma js_string_binary: "list_all (\<lambda>u. unat u \<le> 255) (js_string s)"
proof -
  have "(of_char c :: nat) \<le> 255" for c
    using nat_of_char_less_256 [of c] by arith
  then show ?thesis by (simp add: js_string_def list_all_iff unat_js_unit)
qed

lemma js_string_back: "map (\<lambda>u. char_of (unat u)) (js_string s) = s"
  by (induction s) (simp_all add: js_string_def unat_js_unit)

lemma js_string_inject [simp]: "js_string s = js_string t \<longleftrightarrow> s = t"
  by (metis js_string_back)

lemma btoa_text_js_string: "btoa_text (js_string s) = Inr (btoa s)"
  by (simp add: btoa_text_def js_string_binary js_string_back)

text \<open>
  The buffer that is hashed is empty, whatever the entitlement, unless
  \<^verbatim>\<open>btoa\<close> throws.
\<close>

lemma arrayBuffer_cases:
  "arrayBuffer e = Inl InvalidCharacterError \<or> arrayBuffer e = Inr []"
proof (cases "list_all (\<lambda>u. unat u \<le> 255) (json_members e)")
  case False
  then show ?thesis
    by (simp add: arrayBuffer_def btoa_text_def JSON_stringify_json_def)
next
  case True
  have "map (\<lambda>u. char_of (unat u)) (JSON_stringify_json e)
      = CHR ''{'' # map (\<lambda>u. char_of (unat u)) (json_members e)"
    using js_string_back [of "''{''"] by (simp add: JSON_stringify_json_def)
  with btoa_brace obtain t where
    "btoa (map (\<lambda>u. char_of (unat u)) (JSON_stringify_json e)) = CHR ''e'' # t"
    by metis
  then show ?thesis
    using True js_string_binary [of "''{''"]
    by (simp add: arrayBuffer_def btoa_text_def JSON_stringify_json_def
        new_ArrayBuffer_def StringToNumber_def not_digit_e)
qed

lemma arrayBuffer_js_string [simp]:
  "arrayBuffer \<lparr>json_members = js_string m, pingback = q\<rparr> = Inr []"
proof -
  have "JSON_stringify_json \<lparr>json_members = js_string m, pingback = q\<rparr>
      = js_string (CHR ''{'' # m)"
    by (simp add: JSON_stringify_json_def js_string_def)
  moreover obtain t where "btoa (CHR ''{'' # m) = CHR ''e'' # t"
    using btoa_brace by blast
  ultimately show ?thesis
    by (simp add: arrayBuffer_def btoa_text_js_string new_ArrayBuffer_def StringToNumber_def
        not_digit_e)
qed

lemma btoa_object: "btoa (ToString_ArrayBuffer h) = ''W29iamVjdCBBcnJheUJ1ZmZlcl0=''"
  unfolding ToString_ArrayBuffer_def by (simp add: b64_def b64_alphabet_def)

text \<open>
  The key derivation fails where \<^verbatim>\<open>btoa\<close> throws or the digest rejects; where it
  resolves, the key is the purpose and a fixed suffix.
\<close>

lemma getStorageKey_eq:
  "getStorageKey this storageKey e w =
     (case key_failure this e of
        Some err \<Rightarrow> (Rejected err, w)
      | None \<Rightarrow> (Resolved (storageKey @ ''_W29iamVjdCBBcnJheUJ1ZmZlcl0=''), w))"
  by (simp add: getStorageKey_def key_failure_def btoa_object then_p_def resolve_def throw_def
      settled_def split: sum.splits outcome.splits)

lemma getStorageKey_resolved:
  assumes "getStorageKey this storageKey e w = (Resolved key, w1)"
  shows "key_failure this e = None" and "key = storageKey @ ''_W29iamVjdCBBcnJheUJ1ZmZlcl0=''"
  using assms by (auto simp: getStorageKey_eq split: option.splits)

lemma key_failure_None_arrayBuffer:
  "key_failure this e = None \<Longrightarrow> arrayBuffer e = Inr []"
  using arrayBuffer_cases [of e] by (auto simp: key_failure_def)

text \<open>
  Where it resolves, the key is the same for every entitlement, and differs between
  purposes.
\<close>

lemma getStorageKey_deterministic:
  "key_failure this e1 = None \<Longrightarrow> key_failure this e2 = None \<Longrightarrow>
     getStorageKey this p e1 w = getStorageKey this p e2 w"
  by (simp add: getStorageKey_eq)

lemma getStorageKey_separates_purposes:
  "key_failure this e = None \<Longrightarrow> p1 \<noteq> p2 \<Longrightarrow>
     fst (getStorageKey this p1 e w) \<noteq> fst (getStorageKey this p2 e w)"
  by (simp add: getStorageKey_eq)

section \<open>The cache operations\<close>

lemma getStorageData_eq:
  "getStorageData this storageKey e w =
     (case key_failure this e of
        Some err \<Rightarrow> (Rejected err, w)
      | None \<Rightarrow>
     (case storageForDoc (env this) of
        Rejected err \<Rightarrow> (Resolved Undefined, w)
      | Resolved s \<Rightarrow>
          (Resolved (case get_error s of
                       Some err \<Rightarrow> Undefined
                     | None \<Rightarrow> (case store w (storageKey @ ''_W29iamVjdCBBcnJheUJ1ZmZlcl0='') of
                                  None \<Rightarrow> Undefined | Some v \<Rightarrow> v)),
           w\<lparr>trace := trace w @ [StorageGet (storageKey @ ''_W29iamVjdCBBcnJheUJ1ZmZlcl0='')]\<rparr>)))"
  by (simp add: getStorageData_def getStorageKey_eq then_p_def catch_p_def settled_def
      storage_get_def call_def resolve_def split: outcome.splits option.splits)

lemma setStorageData_eq:
  "setStorageData this storageKey e v w =
     (case key_failure this e of
        Some err \<Rightarrow> (Rejected err, w)
      | None \<Rightarrow>
     (case storageForDoc (env this) of
        Rejected err \<Rightarrow> (Rejected err, w)
      | Resolved s \<Rightarrow>
          (Resolved Undefined,
           (case set_error s of
              Some err \<Rightarrow> w
            | None \<Rightarrow> w\<lparr>store := (store w)(storageKey @ ''_W29iamVjdCBBcnJheUJ1ZmZlcl0='' \<mapsto> v)\<rparr>)
           \<lparr>trace := trace w @ [StorageSet (storageKey @ ''_W29iamVjdCBBcnJheUJ1ZmZlcl0='') v]\<rparr>)))"
  by (simp add: setStorageData_def getStorageKey_eq then_p_def catch_p_def settled_def
      storage_set_def call_def resolve_def split: outcome.splits option.splits)

lemma getStorageData_effect:
  assumes "getStorageData this k e w = (r, w')"
  shows "store w' = store w" and "pending w' = pending w"
    and "\<exists>evs. trace w' = trace w @ evs \<and> list_all is_read evs"
  using assms by (auto simp: getStorageData_eq split: outcome.splits option.splits)

lemma getStorageData_resolved:
  assumes "getStorageData this k e w = (Resolved v, w')"
  shows "key_failure this e = None"
  using assms by (auto simp: getStorageData_eq split: option.splits)

lemma getStorageData_rejected:
  assumes "getStorageData this k e w = (Rejected err, w')"
  shows "w' = w"
  using assms by (auto simp: getStorageData_eq split: option.splits outcome.splits)

section \<open>The existence check\<close>

lemma hasAssociatedUserAccount_hit:
  assumes "getStorageData this HAS_PUBLISHER_ACCOUNT e w = (Resolved v, w')" "v \<noteq> Undefined"
  shows "hasAssociatedUserAccount this e w = (Resolved (Object [(''found'', v)]), w')"
  using assms by (simp add: hasAssociatedUserAccount_def then_p_def resolve_def)

lemma network_check_effect:
  assumes "network_check this e w = (r, w')"
  shows "store w' = store w \<and> pending w' = pending w \<and>
     (\<exists>evs. trace w' = trace w @ evs \<and> list_all is_network evs)"
  using assms
  by (auto simp: network_check_def then_p_def call_def Let_def split: outcome.splits prod.splits)

lemma hasAssociatedUserAccount_alt:
  "hasAssociatedUserAccount this entitlements =
     then_p (getStorageData this HAS_PUBLISHER_ACCOUNT entitlements)
       (\<lambda>publisherAccountLocalValue.
         if publisherAccountLocalValue \<noteq> Undefined
         then resolve (Object [(''found'', publisherAccountLocalValue)])
         else
           then_p (network_check this entitlements)
             (\<lambda>jsonResult.
                case get_prop jsonResult ''found'' of
                  Inl err \<Rightarrow> reject err
                | Inr found \<Rightarrow>
                    then_p (start_setStorageData HAS_PUBLISHER_ACCOUNT entitlements found)
                      (\<lambda>u. resolve jsonResult)))"
  unfolding hasAssociatedUserAccount_def network_check_def by (rule refl)

text \<open>
  Whatever its outcome, the existence check leaves the store as it is and makes only reads
  and network calls; it starts the write of its result when the network answered, and
  nothing when it failed.
\<close>

lemma hasAssociatedUserAccount_effect:
  assumes "hasAssociatedUserAccount this e w = (r, w')"
  shows "store w' = store w \<and>
    (\<exists>evs. trace w' = trace w @ evs \<and> list_all (\<lambda>ev. is_read ev \<or> is_network ev) evs) \<and>
    (case r of
       Rejected err \<Rightarrow> pending w' = pending w
     | Resolved j \<Rightarrow> pending w' = pending w \<or>
         (\<exists>f. get_prop j ''found'' = Inr f \<and>
              pending w' = pending w @ [SetStorageData HAS_PUBLISHER_ACCOUNT e f]))"
proof -
  obtain r1 w1 where rd: "getStorageData this HAS_PUBLISHER_ACCOUNT e w = (r1, w1)"
    by (metis surj_pair)
  note fx = getStorageData_effect[OF rd]
  show ?thesis
  proof (cases r1)
    case (Rejected err)
    then have "hasAssociatedUserAccount this e w = (Rejected err, w1)"
      using rd by (simp add: hasAssociatedUserAccount_def then_p_def)
    with assms fx show ?thesis
      by (auto simp: list_all_iff)
  next
    case (Resolved v)
    note rv = rd [unfolded Resolved]
    have buf: "arrayBuffer e = Inr []"
      using getStorageData_resolved [OF rv] by (rule key_failure_None_arrayBuffer)
    show ?thesis
    proof (cases "v = Undefined")
      case False
      then have "hasAssociatedUserAccount this e w = (Resolved (Object [(''found'', v)]), w1)"
        using rv by (rule hasAssociatedUserAccount_hit[rotated])
      with assms fx show ?thesis
        by (auto simp: list_all_iff)
    next
      case True
      obtain rn w2 where nc: "network_check this e w1 = (rn, w2)" by (metis surj_pair)
      note nfx = network_check_effect[OF nc]
      have "hasAssociatedUserAccount this e w =
         (case rn of
            Rejected err \<Rightarrow> (Rejected err, w2)
          | Resolved j \<Rightarrow>
              (case get_prop j ''found'' of
                 Inl err \<Rightarrow> (Rejected err, w2)
               | Inr f \<Rightarrow> (Resolved j,
                   w2\<lparr>pending := pending w2 @ [SetStorageData HAS_PUBLISHER_ACCOUNT e f]\<rparr>)))"
        using rv True nc buf
        by (simp add: hasAssociatedUserAccount_alt start_setStorageData_def then_p_def
            detached_def resolve_def reject_def split: outcome.splits sum.splits)
      with assms fx nfx show ?thesis
        by (auto simp: list_all_iff split: outcome.splits sum.splits)
    qed
  qed
qed

section \<open>The steps of run\<close>

lemma read_not_network: "is_read ev \<Longrightarrow> \<not> is_network ev"
  by (cases ev) simp_all

lemma quiet_event:
  "is_read ev \<or> is_network ev \<Longrightarrow>
     \<not> is_navigation ev \<and> ev \<noteq> StorageSet k v \<and> ev \<noteq> ConsentPrompt"
  by (cases ev) simp_all

lemma quiet_events:
  assumes "list_all (\<lambda>ev. is_read ev \<or> is_network ev) evs"
  shows "filter is_navigation evs = []" and "StorageSet k v \<notin> set evs"
    and "ConsentPrompt \<notin> set evs"
  using assms quiet_event by (auto simp: list_all_iff filter_empty_conv)

lemma checks_effect:
  assumes rd: "getStorageData this k e w = (r1, w1)"
    and ex: "hasAssociatedUserAccount this e w1 = (r2, w2)"
  shows "store w2 = store w"
    and "\<exists>evs. trace w2 = trace w @ evs \<and> list_all (\<lambda>ev. is_read ev \<or> is_network ev) evs"
    and "case r2 of
           Rejected err \<Rightarrow> pending w2 = pending w
         | Resolved j \<Rightarrow> pending w2 = pending w \<or>
             (\<exists>f. get_prop j ''found'' = Inr f \<and>
                  pending w2 = pending w @ [SetStorageData HAS_PUBLISHER_ACCOUNT e f])"
proof -
  note r = getStorageData_effect[OF rd]
  note h = hasAssociatedUserAccount_effect[OF ex]
  show "store w2 = store w" using r(1) h by simp
  from r(3) obtain evs1 where e1: "trace w1 = trace w @ evs1" "list_all is_read evs1"
    by blast
  from h obtain evs2 where e2: "trace w2 = trace w1 @ evs2"
      "list_all (\<lambda>ev. is_read ev \<or> is_network ev) evs2"
    by blast
  have "trace w2 = trace w @ (evs1 @ evs2)" using e1(1) e2(1) by simp
  moreover have "list_all (\<lambda>ev. is_read ev \<or> is_network ev) (evs1 @ evs2)"
    using e1(2) e2(2) by (auto simp: list_all_iff)
  ultimately show "\<exists>evs. trace w2 = trace w @ evs \<and> list_all (\<lambda>ev. is_read ev \<or> is_network ev) evs"
    by blast
  show "case r2 of
           Rejected err \<Rightarrow> pending w2 = pending w
         | Resolved j \<Rightarrow> pending w2 = pending w \<or>
             (\<exists>f. get_prop j ''found'' = Inr f \<and>
                  pending w2 = pending w @ [SetStorageData HAS_PUBLISHER_ACCOUNT e f])"
    using r(2) h by (simp split: outcome.splits)
qed

lemma run_remembered:
  assumes "getStorageData this HAS_REJECTED_ACCOUNT_CREATION e w = (Resolved rejected, w1)"
    and "truthy rejected"
  shows "run this e w = (Resolved Undefined, w1)"
  using assms by (simp add: run_def then_p_def resolve_def)


lemma run_reaches_consent:
  assumes "getStorageData this HAS_REJECTED_ACCOUNT_CREATION e w = (Resolved rejected, w1)"
    and "\<not> truthy rejected"
    and "hasAssociatedUserAccount this e w1 = (Resolved jsonResult, w2)"
    and "get_prop jsonResult ''found'' = Inr found"
    and "\<not> truthy found"
  shows "run this e w =
    (Resolved Undefined,
     w2\<lparr>trace := trace w2 @ [ConsentPrompt], pending := pending w2 @ [ConsentReaction e]\<rparr>)"
  using assms by (simp add: run_def then_p_def resolve_def call_def detached_def)

lemma run_starts_with_read:
  assumes "storageForDoc (env this) = Resolved s" and "key_failure this e = None"
  shows "\<exists>evs. trace (snd (run this e w)) =
     trace w @ StorageGet (HAS_REJECTED_ACCOUNT_CREATION @ ''_W29iamVjdCBBcnJheUJ1ZmZlcl0='') # evs"
proof -
  let ?key = "HAS_REJECTED_ACCOUNT_CREATION @ ''_W29iamVjdCBBcnJheUJ1ZmZlcl0=''"
  let ?w1 = "w\<lparr>trace := trace w @ [StorageGet ?key]\<rparr>"
  obtain rejected where rd:
    "getStorageData this HAS_REJECTED_ACCOUNT_CREATION e w = (Resolved rejected, ?w1)"
    using assms by (simp add: getStorageData_eq)
  obtain r2 w2 where ex: "hasAssociatedUserAccount this e ?w1 = (r2, w2)"
    by (metis surj_pair)
  from hasAssociatedUserAccount_effect[OF ex] obtain evs2 where
    t2: "trace w2 = trace w @ StorageGet ?key # evs2"
    by auto
  show ?thesis
    using rd ex t2
    by (auto simp: run_def then_p_def resolve_def reject_def call_def detached_def
        split: outcome.splits sum.splits)
qed

lemma consent_reaction_eq:
  assumes "consentDeferredAccountCreation (platform this) = Resolved accepted"
  shows "consent_reaction this e w =
     (if truthy accepted
      then (Resolved Undefined, w\<lparr>trace := trace w @ [NavigateTo (accountCreationRedirectUrl this)]\<rparr>)
      else setStorageData this HAS_REJECTED_ACCOUNT_CREATION e (Bool True) w)"
  using assms by (simp add: consent_reaction_def then_p_def settled_def call_def)

lemma purposes_differ:
  "HAS_PUBLISHER_ACCOUNT @ s \<noteq> HAS_REJECTED_ACCOUNT_CREATION @ s"
  by (simp add: HAS_PUBLISHER_ACCOUNT_def HAS_REJECTED_ACCOUNT_CREATION_def)

lemma key_failure_without_platform:
  "key_failure (this\<lparr>platform := p\<rparr>) e = key_failure this e"
  by (simp add: key_failure_def split: sum.splits)

lemma getStorageData_without_platform:
  "getStorageData (this\<lparr>platform := p\<rparr>) k e = getStorageData this k e"
  by (rule ext)
    (simp add: getStorageData_eq key_failure_without_platform split: option.splits outcome.splits)

lemma network_check_without_platform:
  "network_check (this\<lparr>platform := p\<rparr>) e = network_check this e"
  by (simp add: network_check_def)

lemma hasAssociatedUserAccount_without_platform:
  "hasAssociatedUserAccount (this\<lparr>platform := p\<rparr>) e = hasAssociatedUserAccount this e"
  unfolding hasAssociatedUserAccount_alt getStorageData_without_platform
    network_check_without_platform
  by (rule refl)

text \<open>The outcome of \<open>run\<close> and the world it leaves do not depend on the consent decision.\<close>

lemma run_ignores_consent_decision:
  "run (this\<lparr>platform := p\<rparr>) e w = run this e w"
  unfolding run_def getStorageData_without_platform hasAssociatedUserAccount_without_platform
  by (rule refl)

section \<open>The claims\<close>

lemmas sample_defs = sample_flow_def constructor_def or_null_def has_url_def create_url_def
  sample_services_def working_storage_def not_found_response_def accepting_def declining_def
  sample_entitlement_def other_entitlement_def empty_world_def
  HAS_PUBLISHER_ACCOUNT_def HAS_REJECTED_ACCOUNT_CREATION_def
  key_failure_def stand_in_digest_def other_digest_def failing_digest_def

text \<open>
  C1, as stated, fails: a flow built without a redirect URL has a falsy
  \<open>isDeferredAccountCreationEnabled\<close>, and its \<open>run\<close> still reads the store, asks the
  network, opens the consent prompt and navigates (to null).
\<close>

theorem feature_gate_counterexample:
  "isDeferredAccountCreationEnabled
       (constructor sample_services (Some ''https://pub.example/has-account'') None accepting) = None
   \<and> trace (snd (run_flow
       (constructor sample_services (Some ''https://pub.example/has-account'') None accepting)
       sample_entitlement empty_world))
     = [StorageGet ''user-rejected-account-creation-request_W29iamVjdCBBcnJheUJ1ZmZlcl0='',
        StorageGet ''account-exists-on-publisher-side_W29iamVjdCBBcnJheUJ1ZmZlcl0='',
        BuildUrl (Some ''https://pub.example/has-account'') True,
        FetchJson ''https://pub.example/has-account''
          \<lparr>http_method = ''POST'', credentials = ''include'', body_entitlements = ''a''\<rparr>,
        ResponseJson,
        ConsentPrompt,
        StorageSet ''account-exists-on-publisher-side_W29iamVjdCBBcnJheUJ1ZmZlcl0='' (Bool False),
        NavigateTo None]"
  by (simp add: run_flow_def event_loop_def consent_reaction_def setStorageData_eq settled_def
        isDeferredAccountCreationEnabled_def
        run_def hasAssociatedUserAccount_alt getStorageData_eq network_check_def then_p_def
        call_def Let_def detached_def resolve_def start_setStorageData_def sample_defs)

text \<open>
  C1, amended. If either URL given to the constructor is absent or empty,
  \<open>isDeferredAccountCreationEnabled\<close> is falsy. \<open>run\<close> does not consult it: where there
  is a store and the key of HAS_REJECTED_ACCOUNT_CREATION is derived for the entitlement,
  \<open>run\<close> starts with the read of that key.
\<close>

theorem feature_gate:
  assumes "\<not> truthy_url hasUrl \<or> \<not> truthy_url redirectUrl"
  shows "\<not> truthy_url (isDeferredAccountCreationEnabled (constructor sv hasUrl redirectUrl p))
     \<and> (\<forall>s key.
          storageForDoc sv = Resolved s \<and>
          getStorageKey (constructor sv hasUrl redirectUrl p) HAS_REJECTED_ACCOUNT_CREATION e w
            = (Resolved key, w) \<longrightarrow>
          (\<exists>evs. trace (snd (run (constructor sv hasUrl redirectUrl p) e w))
             = trace w @ StorageGet key # evs))"
proof -
  let ?flow = "constructor sv hasUrl redirectUrl p"
  have gate: "\<not> truthy_url (isDeferredAccountCreationEnabled ?flow)"
    using assms
    by (auto simp: isDeferredAccountCreationEnabled_def constructor_def or_null_def truthy_url_def
        split: option.splits if_splits)
  have starts: "\<exists>evs. trace (snd (run ?flow e w)) = trace w @ StorageGet key # evs"
    if st: "storageForDoc sv = Resolved s"
      and key: "getStorageKey ?flow HAS_REJECTED_ACCOUNT_CREATION e w = (Resolved key, w)"
    for s key
  proof -
    have "storageForDoc (env ?flow) = Resolved s"
      using st by (simp add: constructor_def)
    then show ?thesis
      using run_starts_with_read [of ?flow s e w] getStorageKey_resolved [OF key] by simp
  qed
  show ?thesis using gate starts by blast
qed

theorem feature_gate_witness:
  "\<not> truthy_url None
   \<and> \<not> truthy_url (isDeferredAccountCreationEnabled
         (constructor sample_services (Some ''https://pub.example/has-account'') None accepting))
   \<and> storageForDoc sample_services = Resolved working_storage
   \<and> getStorageKey
         (constructor sample_services (Some ''https://pub.example/has-account'') None accepting)
         HAS_REJECTED_ACCOUNT_CREATION sample_entitlement empty_world
       = (Resolved ''user-rejected-account-creation-request_W29iamVjdCBBcnJheUJ1ZmZlcl0='',
          empty_world)
   \<and> (\<exists>evs. trace (snd (run
         (constructor sample_services (Some ''https://pub.example/has-account'') None accepting)
         sample_entitlement empty_world))
        = StorageGet ''user-rejected-account-creation-request_W29iamVjdCBBcnJheUJ1ZmZlcl0='' # evs)"
proof -
  let ?flow = "constructor sample_services (Some ''https://pub.example/has-account'') None accepting"
  have missing: "\<not> truthy_url (Some ''https://pub.example/has-account'') \<or> \<not> truthy_url None"
    by (simp add: truthy_url_def)
  have st: "storageForDoc sample_services = Resolved working_storage"
    by (simp add: sample_services_def)
  have key: "getStorageKey ?flow HAS_REJECTED_ACCOUNT_CREATION sample_entitlement empty_world
      = (Resolved ''user-rejected-account-creation-request_W29iamVjdCBBcnJheUJ1ZmZlcl0='',
         empty_world)"
    by (simp add: getStorageKey_eq sample_defs)
  have tr: "trace empty_world = []" by (simp add: empty_world_def)
  show ?thesis
    using feature_gate [OF missing, of sample_services accepting sample_entitlement empty_world]
      st key tr
    by (auto simp: truthy_url_def)
qed



text \<open>
  C3. If the cache read under the purpose HAS_PUBLISHER_ACCOUNT returns \<^verbatim>\<open>true\<close>, the
  existence check resolves to \<^verbatim>\<open>{found: true}\<close> in the world the read left: no URL is
  built, no request is sent, no response is parsed.
\<close>

theorem cache_hit_short_circuit:
  assumes "getStorageData this HAS_PUBLISHER_ACCOUNT e w = (Resolved (Bool True), w')"
  shows "hasAssociatedUserAccount this e w = (Resolved (Object [(''found'', Bool True)]), w')
       \<and> filter is_network (new_events w w') = []"
proof -
  have "hasAssociatedUserAccount this e w = (Resolved (Object [(''found'', Bool True)]), w')"
    using assms by (rule hasAssociatedUserAccount_hit) simp
  moreover have "filter is_network (new_events w w') = []"
    using getStorageData_effect(3)[OF assms]
    by (auto simp: new_events_def list_all_iff filter_empty_conv dest: read_not_network)
  ultimately show ?thesis by simp
qed

theorem cache_hit_short_circuit_witness:
  "getStorageData (sample_flow sample_services declining) HAS_PUBLISHER_ACCOUNT sample_entitlement
     (empty_world\<lparr>store := [''account-exists-on-publisher-side_W29iamVjdCBBcnJheUJ1ZmZlcl0='' \<mapsto> Bool True]\<rparr>)
    = (Resolved (Bool True),
       empty_world\<lparr>store := [''account-exists-on-publisher-side_W29iamVjdCBBcnJheUJ1ZmZlcl0='' \<mapsto> Bool True],
                    trace := [StorageGet ''account-exists-on-publisher-side_W29iamVjdCBBcnJheUJ1ZmZlcl0='']\<rparr>)
   \<and> hasAssociatedUserAccount (sample_flow sample_services declining) sample_entitlement
     (empty_world\<lparr>store := [''account-exists-on-publisher-side_W29iamVjdCBBcnJheUJ1ZmZlcl0='' \<mapsto> Bool True]\<rparr>)
    = (Resolved (Object [(''found'', Bool True)]),
       empty_world\<lparr>store := [''account-exists-on-publisher-side_W29iamVjdCBBcnJheUJ1ZmZlcl0='' \<mapsto> Bool True],
                    trace := [StorageGet ''account-exists-on-publisher-side_W29iamVjdCBBcnJheUJ1ZmZlcl0='']\<rparr>)"
proof -
  have rd: "getStorageData (sample_flow sample_services declining) HAS_PUBLISHER_ACCOUNT sample_entitlement
     (empty_world\<lparr>store := [''account-exists-on-publisher-side_W29iamVjdCBBcnJheUJ1ZmZlcl0='' \<mapsto> Bool True]\<rparr>)
    = (Resolved (Bool True),
       empty_world\<lparr>store := [''account-exists-on-publisher-side_W29iamVjdCBBcnJheUJ1ZmZlcl0='' \<mapsto> Bool True],
                    trace := [StorageGet ''account-exists-on-publisher-side_W29iamVjdCBBcnJheUJ1ZmZlcl0='']\<rparr>)"
    by (simp add: getStorageData_eq sample_defs)
  show ?thesis using rd cache_hit_short_circuit [OF rd] by simp
qed

text \<open>
  C4. If the store holds \<^verbatim>\<open>true\<close> under the key of HAS_REJECTED_ACCOUNT_CREATION for
  the entitlement, \<open>run\<close> resolves after the one read of that key: no other call is made,
  the store is not written, and no chain is left pending.
\<close>

theorem rejection_memory:
  assumes "storageForDoc (env this) = Resolved s" and "get_error s = None"
    and "getStorageKey this HAS_REJECTED_ACCOUNT_CREATION e w = (Resolved key, w)"
    and "store w key = Some (Bool True)"
  shows "run this e w = (Resolved Undefined, w\<lparr>trace := trace w @ [StorageGet key]\<rparr>)"
proof -
  note kf = getStorageKey_resolved(1) [OF assms(3)]
  note k = getStorageKey_resolved(2) [OF assms(3)]
  have "getStorageData this HAS_REJECTED_ACCOUNT_CREATION e w
      = (Resolved (Bool True), w\<lparr>trace := trace w @ [StorageGet key]\<rparr>)"
    using assms(1,2,4) by (simp add: getStorageData_eq k kf)
  then show ?thesis by (rule run_remembered) simp
qed

theorem rejection_memory_witness:
  "run (sample_flow sample_services accepting) sample_entitlement
     (empty_world\<lparr>store := [''user-rejected-account-creation-request_W29iamVjdCBBcnJheUJ1ZmZlcl0='' \<mapsto> Bool True]\<rparr>)
   = (Resolved Undefined,
      empty_world\<lparr>store := [''user-rejected-account-creation-request_W29iamVjdCBBcnJheUJ1ZmZlcl0='' \<mapsto> Bool True],
        trace := [StorageGet ''user-rejected-account-creation-request_W29iamVjdCBBcnJheUJ1ZmZlcl0='']\<rparr>)"
  using rejection_memory [of "sample_flow sample_services accepting" working_storage sample_entitlement
      "empty_world\<lparr>store := [''user-rejected-account-creation-request_W29iamVjdCBBcnJheUJ1ZmZlcl0='' \<mapsto> Bool True]\<rparr>"
      "''user-rejected-account-creation-request_W29iamVjdCBBcnJheUJ1ZmZlcl0=''"]
  by (simp add: getStorageKey_eq sample_defs)

text \<open>
  C5. Two entitlements with different serializations get the same storage key under the
  same purpose: the entitlement does not reach the key.
\<close>

theorem storage_key_ignores_entitlement:
  "JSON_stringify_json sample_entitlement \<noteq> JSON_stringify_json other_entitlement
   \<and> getStorageKey (sample_flow sample_services declining) HAS_PUBLISHER_ACCOUNT sample_entitlement empty_world
     = getStorageKey (sample_flow sample_services declining) HAS_PUBLISHER_ACCOUNT other_entitlement empty_world"
  by (simp add: getStorageKey_eq JSON_stringify_json_def sample_defs)

text \<open>
  C6. The storage key of an entitlement is the purpose, an underscore and the base64 of the
  text \<^verbatim>\<open>[object ArrayBuffer]\<close>; it is the same under two digests that differ on the
  hashed buffer, so the digest is not part of it.
\<close>

theorem storage_key_holds_no_digest:
  "getStorageKey (sample_flow sample_services declining) HAS_PUBLISHER_ACCOUNT sample_entitlement empty_world
     = (Resolved ''account-exists-on-publisher-side_W29iamVjdCBBcnJheUJ1ZmZlcl0='', empty_world)
   \<and> getStorageKey (sample_flow (sample_services\<lparr>digest := other_digest\<rparr>) declining) HAS_PUBLISHER_ACCOUNT sample_entitlement empty_world
     = (Resolved ''account-exists-on-publisher-side_W29iamVjdCBBcnJheUJ1ZmZlcl0='', empty_world)
   \<and> stand_in_digest [] \<noteq> other_digest []
   \<and> btoa ''[object ArrayBuffer]'' = ''W29iamVjdCBBcnJheUJ1ZmZlcl0=''"
proof -
  have "btoa ''[object ArrayBuffer]'' = ''W29iamVjdCBBcnJheUJ1ZmZlcl0=''"
    using btoa_object [of "[]"] by (simp only: ToString_ArrayBuffer_def)
  moreover have "stand_in_digest [] \<noteq> other_digest []"
    by (simp add: stand_in_digest_def other_digest_def)
  moreover have "getStorageKey (sample_flow sv declining) HAS_PUBLISHER_ACCOUNT
        sample_entitlement empty_world
      = (Resolved ''account-exists-on-publisher-side_W29iamVjdCBBcnJheUJ1ZmZlcl0='', empty_world)"
    if "digest sv [] = Resolved h" for sv h
    using that by (simp add: getStorageKey_eq sample_flow_def constructor_def key_failure_def
        sample_entitlement_def HAS_PUBLISHER_ACCOUNT_def)
  ultimately show ?thesis
    by (simp add: sample_services_def stand_in_digest_def other_digest_def)
qed

text \<open>
  C7, as stated, fails: the \<^verbatim>\<open>catch\<close> of \<open>getStorageData\<close> is inside the callback
  that takes the key, so a failure of the key derivation is the failure of the read. Here
  the digest rejects, and the read rejects with its error before the store is reached.
\<close>

theorem cache_read_rejects_counterexample:
  "getStorageData (sample_flow (sample_services\<lparr>digest := failing_digest\<rparr>) declining)
      HAS_PUBLISHER_ACCOUNT sample_entitlement empty_world
    = (Rejected (Reason ''digest''), empty_world)"
  by (simp add: getStorageData_eq sample_defs)

text \<open>
  The same on text that \<^verbatim>\<open>btoa\<close> does not take: the exception of \<^verbatim>\<open>btoa\<close> ends
  the read.
\<close>

lemma getStorageData_text_above_255:
  "getStorageData (sample_flow sample_services declining)
      HAS_PUBLISHER_ACCOUNT euro_entitlement empty_world
    = (Rejected InvalidCharacterError, empty_world)"
proof -
  have "arrayBuffer euro_entitlement = Inl InvalidCharacterError"
    by (simp add: arrayBuffer_def btoa_text_def JSON_stringify_json_def euro_entitlement_def
        js_string_binary)
  then show ?thesis
    by (simp add: getStorageData_eq key_failure_def)
qed

text \<open>
  C7, amended. For every purpose and entitlement whose key is derived, the cache read
  resolves, and leaves the store as it is. Where the store is absent (its promise rejects),
  where its \<open>get\<close> rejects, and where the key is not in the store, the read resolves to
  \<^verbatim>\<open>undefined\<close>.
\<close>

theorem cache_read_resolves_with_key:
  assumes "getStorageKey this purpose e w = (Resolved key, w)"
  shows "\<exists>v w'. getStorageData this purpose e w = (Resolved v, w')
     \<and> store w' = store w
     \<and> (((\<exists>err. storageForDoc (env this) = Rejected err)
          \<or> (\<exists>s err. storageForDoc (env this) = Resolved s \<and> get_error s = Some err)
          \<or> store w key = None)
         \<longrightarrow> v = Undefined)"
  using getStorageKey_resolved [OF assms]
  by (auto simp: getStorageData_eq split: outcome.splits option.splits)

theorem cache_read_resolves_with_key_witness:
  "getStorageKey (sample_flow (sample_services\<lparr>storageForDoc := Rejected (Reason ''no storage'')\<rparr>) declining)
        HAS_PUBLISHER_ACCOUNT sample_entitlement empty_world
     = (Resolved ''account-exists-on-publisher-side_W29iamVjdCBBcnJheUJ1ZmZlcl0='', empty_world)
   \<and> storageForDoc (env (sample_flow (sample_services\<lparr>storageForDoc := Rejected (Reason ''no storage'')\<rparr>) declining))
     = Rejected (Reason ''no storage'')
   \<and> fst (getStorageData (sample_flow (sample_services\<lparr>storageForDoc := Rejected (Reason ''no storage'')\<rparr>) declining)
        HAS_PUBLISHER_ACCOUNT sample_entitlement empty_world) = Resolved Undefined"
proof -
  let ?flow = "sample_flow (sample_services\<lparr>storageForDoc := Rejected (Reason ''no storage'')\<rparr>) declining"
  have key: "getStorageKey ?flow HAS_PUBLISHER_ACCOUNT sample_entitlement empty_world
     = (Resolved ''account-exists-on-publisher-side_W29iamVjdCBBcnJheUJ1ZmZlcl0='', empty_world)"
    by (simp add: getStorageKey_eq sample_defs)
  have st: "storageForDoc (env ?flow) = Rejected (Reason ''no storage'')"
    by (simp add: sample_defs)
  show ?thesis
    using cache_read_resolves_with_key [OF key] key st by auto
qed

text \<open>
  C8. The cache write where the viewer has no storage: the promise of the store service
  rejects, the \<^verbatim>\<open>catch\<close> of \<open>setStorageData\<close> sits on the \<open>set\<close> call alone, and
  the write rejects with the error of the store service. (\<open>getStorageData\<close> has its
  \<^verbatim>\<open>catch\<close> after the whole chain and resolves there.)
\<close>

theorem cache_write_rejects_without_store:
  "setStorageData (sample_flow (sample_services\<lparr>storageForDoc := Rejected (Reason ''no storage'')\<rparr>) declining)
      HAS_REJECTED_ACCOUNT_CREATION sample_entitlement (Bool True) empty_world
    = (Rejected (Reason ''no storage''), empty_world)
   \<and> fst (getStorageData (sample_flow (sample_services\<lparr>storageForDoc := Rejected (Reason ''no storage'')\<rparr>) declining)
      HAS_REJECTED_ACCOUNT_CREATION sample_entitlement empty_world)
    = Resolved Undefined
   \<and> fst (setStorageData
        (sample_flow (sample_services\<lparr>storageForDoc :=
           Resolved (working_storage\<lparr>set_error := Some (Reason ''quota'')\<rparr>)\<rparr>) declining)
      HAS_REJECTED_ACCOUNT_CREATION sample_entitlement (Bool True) empty_world)
    = Resolved Undefined"
  by (simp add: setStorageData_eq getStorageData_eq sample_defs)

text \<open>
  C9. A run in a world with nothing pending, no remembered rejection, and an existence check
  that resolves with a falsy \<open>found\<close>. When the consent decision is falsy, no navigation
  happens; where there is a store, the last call of the flow is its \<open>set\<close> of
  \<^verbatim>\<open>true\<close> under the key of HAS_REJECTED_ACCOUNT_CREATION for the entitlement, and the
  store holds \<^verbatim>\<open>true\<close> there unless \<open>set\<close> rejects. When the decision is truthy,
  the navigation is called once, with the redirect URL of the flow, and the key of
  HAS_REJECTED_ACCOUNT_CREATION is neither set nor changed.
\<close>

theorem consent_outcome:
  assumes fresh: "pending w = []"
    and rd: "getStorageData this HAS_REJECTED_ACCOUNT_CREATION e w = (Resolved rejected, w1)"
    and nr: "\<not> truthy rejected"
    and ex: "hasAssociatedUserAccount this e w1 = (Resolved jsonResult, w2)"
    and fd: "get_prop jsonResult ''found'' = Inr found"
    and nf: "\<not> truthy found"
    and key: "getStorageKey this HAS_REJECTED_ACCOUNT_CREATION e w = (Resolved key, w)"
    and cs: "consentDeferredAccountCreation (platform this) = Resolved accepted"
    and fl: "run_flow this e w = (r, w')"
  shows "r = Resolved Undefined \<and> pending w' = [] \<and>
     (if truthy accepted
      then filter is_navigation (new_events w w') = [NavigateTo (accountCreationRedirectUrl this)]
           \<and> (\<forall>v. StorageSet key v \<notin> set (new_events w w'))
           \<and> store w' key = store w key
      else filter is_navigation (new_events w w') = []
           \<and> (\<forall>s. storageForDoc (env this) = Resolved s \<longrightarrow>
                  last (new_events w w') = StorageSet key (Bool True)
                  \<and> (set_error s = None \<longrightarrow> store w' key = Some (Bool True))))"
proof -
  note kf = getStorageKey_resolved(1) [OF key]
  note k = getStorageKey_resolved(2) [OF key]
  note c = checks_effect[OF rd ex]
  from c(2) obtain evs where evs: "trace w2 = trace w @ evs"
     "list_all (\<lambda>ev. is_read ev \<or> is_network ev) evs"
    by blast
  note q = quiet_events[OF evs(2)]
  let ?w3 = "w2\<lparr>trace := trace w2 @ [ConsentPrompt], pending := pending w2 @ [ConsentReaction e]\<rparr>"
  have rn: "run this e w = (Resolved Undefined, ?w3)"
    using rd nr ex fd nf by (rule run_reaches_consent)
  from fl rn have r: "r = Resolved Undefined" and w': "w' = event_loop this ?w3"
    by (simp_all add: run_flow_def)
  from c(3) fresh consider
      (hit) "pending w2 = []"
    | (miss) f where "pending w2 = [SetStorageData HAS_PUBLISHER_ACCOUNT e f]"
    by auto
  then show ?thesis
  proof cases
    case hit
    then show ?thesis
      using r w' c(1) evs(1) q
      by (auto simp: event_loop_def consent_reaction_eq[OF cs] setStorageData_eq new_events_def k kf
          split: outcome.splits option.splits)
  next
    case miss
    then show ?thesis
      using r w' c(1) evs(1) q purposes_differ
      by (auto simp: event_loop_def consent_reaction_eq[OF cs] setStorageData_eq new_events_def k kf
          split: outcome.splits option.splits)
  qed
qed

theorem consent_outcome_witness:
  "pending empty_world = [] \<and> \<not> truthy Undefined \<and> \<not> truthy (Bool False) \<and> truthy (Bool True)
   \<and> fst (run_flow (sample_flow sample_services declining) sample_entitlement empty_world)
       = Resolved Undefined
   \<and> filter is_navigation (new_events empty_world
         (snd (run_flow (sample_flow sample_services declining) sample_entitlement empty_world))) = []
   \<and> store (snd (run_flow (sample_flow sample_services declining) sample_entitlement empty_world))
         ''user-rejected-account-creation-request_W29iamVjdCBBcnJheUJ1ZmZlcl0='' = Some (Bool True)
   \<and> filter is_navigation (new_events empty_world
         (snd (run_flow (sample_flow sample_services accepting) sample_entitlement empty_world)))
       = [NavigateTo (Some ''https://pub.example/create'')]
   \<and> store (snd (run_flow (sample_flow sample_services accepting) sample_entitlement empty_world))
         ''user-rejected-account-creation-request_W29iamVjdCBBcnJheUJ1ZmZlcl0='' = None"
proof -
  let ?w1 = "empty_world\<lparr>trace :=
        [StorageGet ''user-rejected-account-creation-request_W29iamVjdCBBcnJheUJ1ZmZlcl0='']\<rparr>"
  let ?w2 = "empty_world\<lparr>trace :=
        [StorageGet ''user-rejected-account-creation-request_W29iamVjdCBBcnJheUJ1ZmZlcl0='',
         StorageGet ''account-exists-on-publisher-side_W29iamVjdCBBcnJheUJ1ZmZlcl0='',
         BuildUrl (Some ''https://pub.example/has-account'') True,
         FetchJson ''https://pub.example/has-account''
           \<lparr>http_method = ''POST'', credentials = ''include'', body_entitlements = ''a''\<rparr>,
         ResponseJson],
        pending := [SetStorageData HAS_PUBLISHER_ACCOUNT sample_entitlement (Bool False)]\<rparr>"
  let ?key = "''user-rejected-account-creation-request_W29iamVjdCBBcnJheUJ1ZmZlcl0=''"
  have fresh: "pending empty_world = []" by (simp add: empty_world_def)
  have nr: "\<not> truthy Undefined" by simp
  have fd: "get_prop (Object [(''found'', Bool False)]) ''found'' = Inr (Bool False)" by simp
  have nf: "\<not> truthy (Bool False)" by simp
  have rd: "getStorageData (sample_flow sample_services p) HAS_REJECTED_ACCOUNT_CREATION
       sample_entitlement empty_world = (Resolved Undefined, ?w1)" for p
    by (simp add: getStorageData_eq sample_defs)
  have ex: "hasAssociatedUserAccount (sample_flow sample_services p) sample_entitlement ?w1
      = (Resolved (Object [(''found'', Bool False)]), ?w2)" for p
    by (simp add: hasAssociatedUserAccount_alt getStorageData_eq network_check_def then_p_def
        call_def Let_def detached_def resolve_def start_setStorageData_def sample_defs)
  have key: "getStorageKey (sample_flow sample_services p) HAS_REJECTED_ACCOUNT_CREATION
       sample_entitlement empty_world = (Resolved ?key, empty_world)" for p
    by (simp add: getStorageKey_eq sample_defs)
  have csd: "consentDeferredAccountCreation (platform (sample_flow sample_services declining))
      = Resolved (Bool False)"
    by (simp add: sample_defs)
  have csa: "consentDeferredAccountCreation (platform (sample_flow sample_services accepting))
      = Resolved (Bool True)"
    by (simp add: sample_defs)
  have st: "storageForDoc (env (sample_flow sample_services declining)) = Resolved working_storage"
     "set_error working_storage = None"
     "accountCreationRedirectUrl (sample_flow sample_services accepting) = Some ''https://pub.example/create''"
     "store empty_world ?key = None"
    by (simp_all add: sample_defs)
  show ?thesis
    using consent_outcome [OF fresh rd nr ex fd nf key csd prod.collapse [symmetric]]
      consent_outcome [OF fresh rd nr ex fd nf key csa prod.collapse [symmetric]]
      fresh st
    by simp
qed

text \<open>
  C10. The promise of \<open>run\<close> in a flow that reaches consent: it resolves once the prompt
  has been opened, with the same outcome and world whether the person will accept or
  decline. At that point the reaction to the decision is still pending, no navigation has
  happened and no rejection has been stored.
\<close>

theorem run_settles_before_consent:
  "fst (run (sample_flow sample_services declining) sample_entitlement empty_world) = Resolved Undefined
   \<and> run (sample_flow sample_services accepting) sample_entitlement empty_world
     = run (sample_flow sample_services declining) sample_entitlement empty_world
   \<and> trace (snd (run (sample_flow sample_services declining) sample_entitlement empty_world))
     = [StorageGet ''user-rejected-account-creation-request_W29iamVjdCBBcnJheUJ1ZmZlcl0='',
        StorageGet ''account-exists-on-publisher-side_W29iamVjdCBBcnJheUJ1ZmZlcl0='',
        BuildUrl (Some ''https://pub.example/has-account'') True,
        FetchJson ''https://pub.example/has-account''
          \<lparr>http_method = ''POST'', credentials = ''include'', body_entitlements = ''a''\<rparr>,
        ResponseJson,
        ConsentPrompt]
   \<and> pending (snd (run (sample_flow sample_services declining) sample_entitlement empty_world))
     = [SetStorageData HAS_PUBLISHER_ACCOUNT sample_entitlement (Bool False),
        ConsentReaction sample_entitlement]
   \<and> store (snd (run (sample_flow sample_services declining) sample_entitlement empty_world))
        ''user-rejected-account-creation-request_W29iamVjdCBBcnJheUJ1ZmZlcl0='' = None"
  by (simp add: run_def hasAssociatedUserAccount_alt getStorageData_eq network_check_def then_p_def
        call_def Let_def detached_def resolve_def start_setStorageData_def sample_defs)

end
